theory Spec2Isabelle
  imports Complex_Main "HOL-Library.AList"
begin

section \<open>The migration-path pipeline of build_migration_paths.py\<close>

text \<open>
  The numbers of the script (longitudes, latitudes, densities) are modelled as exact
  rationals: every comparison, sum and quotient below is the mathematical one.
  A Python dict is an association list in insertion order whose keys are distinct;
  storing into a dict is \<open>AList.update\<close> (an existing key keeps its place, a new key
  goes to the end).  Exceptions are values of \<open>error\<close>, returned as \<open>Inl\<close>.
\<close>

subsection \<open>Data\<close>

type_synonym point = "rat \<times> rat"

type_synonym density_map = "(point \<times> rat) list"

type_synonym region = "(rat \<times> rat) \<times> (rat \<times> rat)"

datatype error = ValueError | ZeroDivisionError | IndexError

record frame =
  week :: string
  cells :: "rat list list"

record heatmap =
  frames :: "frame list"

record path_record =
  northPoint :: "rat list"
  southPoint :: "rat list"
  path :: "rat list list"

record migration_output =
  speciesName :: string
  color :: string
  paths :: "path_record list"

subsection \<open>Dict helpers\<close>

definition dict_get :: "('k \<times> 'v) list \<Rightarrow> 'k \<Rightarrow> 'v \<Rightarrow> 'v" where
  "dict_get d k dflt = (case map_of d k of None \<Rightarrow> dflt | Some v \<Rightarrow> v)"

text \<open>A dict comprehension or a dict built by a loop: the items are stored one by one.\<close>

definition dict_of_items :: "('k \<times> 'v) list \<Rightarrow> ('k \<times> 'v) list" where
  "dict_of_items items = foldl (\<lambda>d (k, v). AList.update k v d) [] items"

text \<open>Python's \<open>max\<close> over a non-empty sequence keeps the first maximal element.\<close>

fun py_max_from :: "rat \<Rightarrow> rat list \<Rightarrow> rat" where
  "py_max_from m [] = m"
| "py_max_from m (v # vs) = py_max_from (if m < v then v else m) vs"

fun py_max_key_from :: "('a \<Rightarrow> rat) \<Rightarrow> 'a \<Rightarrow> 'a list \<Rightarrow> 'a" where
  "py_max_key_from key b [] = b"
| "py_max_key_from key b (x # xs) = py_max_key_from key (if key b < key x then x else b) xs"

text \<open>
  A slice \<open>xs[start:end]\<close>: a negative index counts from the end, and both indices are
  clamped to the list.
\<close>

definition py_slice :: "'a list \<Rightarrow> int \<Rightarrow> int \<Rightarrow> 'a list" where
  "py_slice xs start end =
     (let n = int (length xs);
          s = (if start < 0 then max 0 (start + n) else min start n);
          e = (if end < 0 then max 0 (end + n) else min end n)
      in take (nat (e - s)) (drop (nat s) xs))"

text \<open>\<open>round(x, 3)\<close>: to three decimals, a tie going to the even neighbour.\<close>

definition round_half_even :: "rat \<Rightarrow> int" where
  "round_half_even y =
     (let f = \<lfloor>y\<rfloor>; d = y - of_int f
      in if d < 1 / 2 then f
         else if 1 / 2 < d then f + 1
         else if even f then f else f + 1)"

definition round3 :: "rat \<Rightarrow> rat" where
  "round3 x = of_int (round_half_even (x * 1000)) / 1000"

subsection \<open>aggregate_density_over_time\<close>

fun aggregate_cells :: "density_map \<Rightarrow> rat list list \<Rightarrow> error + density_map" where
  "aggregate_cells density_map [] = Inr density_map"
| "aggregate_cells density_map (cell # rest) =
     (if length cell < 3 then Inl IndexError
      else let lon = cell ! 0; lat = cell ! 1; density = cell ! 2; key = (lon, lat)
           in aggregate_cells
                (AList.update key (dict_get density_map key 0 + density) density_map) rest)"

fun aggregate_frames :: "density_map \<Rightarrow> frame list \<Rightarrow> error + density_map" where
  "aggregate_frames density_map [] = Inr density_map"
| "aggregate_frames density_map (fr # rest) =
     (case aggregate_cells density_map (cells fr) of
        Inl e \<Rightarrow> Inl e
      | Inr density_map' \<Rightarrow> aggregate_frames density_map' rest)"

definition aggregate_density_over_time :: "frame list \<Rightarrow> error + density_map" where
  "aggregate_density_over_time frs = aggregate_frames [] frs"

subsection \<open>normalize_densities\<close>

definition normalize_densities :: "density_map \<Rightarrow> density_map" where
  "normalize_densities density_map =
     (if density_map = [] then []
      else let max_density = py_max_from (hd (map snd density_map)) (tl (map snd density_map))
           in if max_density = 0
              then dict_of_items (map (\<lambda>(k, v). (k, 0)) density_map)
              else dict_of_items (map (\<lambda>(k, v). (k, v / max_density)) density_map))"

subsection \<open>filter_geographic_regions\<close>

fun in_some_region :: "rat \<Rightarrow> rat \<Rightarrow> region list \<Rightarrow> bool" where
  "in_some_region lon lat [] = False"
| "in_some_region lon lat (((min_lon, max_lon), (min_lat, max_lat)) # rest) =
     (if min_lon \<le> lon \<and> lon \<le> max_lon \<and> min_lat \<le> lat \<and> lat \<le> max_lat then True
      else in_some_region lon lat rest)"

definition filter_geographic_regions :: "density_map \<Rightarrow> region list option \<Rightarrow> density_map" where
  "filter_geographic_regions density_map exclude_regions =
     (case exclude_regions of
        None \<Rightarrow> density_map
      | Some [] \<Rightarrow> density_map
      | Some regions \<Rightarrow>
          foldl (\<lambda>filtered ((lon, lat), density).
                   if in_some_region lon lat regions then filtered
                   else AList.update (lon, lat) density filtered)
                [] density_map)"

subsection \<open>cluster_by_longitude\<close>

text \<open>
  One pass of the loop over the items; the state is the pair (western, eastern).
  The per-longitude totals that the source computes before the loop are never read
  and are left out.
\<close>

definition cluster_step ::
  "bool \<Rightarrow> rat option \<Rightarrow> bool \<Rightarrow> bool \<Rightarrow> density_map \<times> density_map \<Rightarrow> point \<times> rat
     \<Rightarrow> density_map \<times> density_map" where
  "cluster_step europe_only americas_south_limit americas_only africa_only_south st item =
     (case (st, item) of ((western, eastern), ((lon, lat), density)) \<Rightarrow>
        if lon < - 20 then
          (if (case americas_south_limit of None \<Rightarrow> True | Some limit \<Rightarrow> limit \<le> lat)
           then (AList.update (lon, lat) density western, eastern)
           else (western, eastern))
        else if \<not> americas_only then
          (if europe_only then
             (if - 10 \<le> lon \<and> lon \<le> 45 \<and> 35 \<le> lat \<and> lat \<le> 72
              then (western, AList.update (lon, lat) density eastern)
              else (western, eastern))
           else if africa_only_south then
             (if - 20 \<le> lon \<and> lon \<le> 51
              then (western, AList.update (lon, lat) density eastern)
              else (western, eastern))
           else (western, AList.update (lon, lat) density eastern))
        else (western, eastern))"

definition cluster_loop ::
  "bool \<Rightarrow> rat option \<Rightarrow> bool \<Rightarrow> bool \<Rightarrow> density_map \<Rightarrow> density_map \<times> density_map" where
  "cluster_loop europe_only americas_south_limit americas_only africa_only_south density_map =
     foldl (cluster_step europe_only americas_south_limit americas_only africa_only_south)
       ([], []) density_map"

definition cluster_by_longitude ::
  "density_map \<Rightarrow> int \<Rightarrow> bool \<Rightarrow> rat option \<Rightarrow> bool \<Rightarrow> bool \<Rightarrow> density_map list" where
  "cluster_by_longitude density_map num_clusters europe_only americas_south_limit
       americas_only africa_only_south =
     (if density_map = [] then []
      else (case cluster_loop europe_only americas_south_limit americas_only
                   africa_only_south density_map of
              (western, eastern) \<Rightarrow>
                (if western \<noteq> [] then [western] else []) @
                (if eastern \<noteq> [] then [eastern] else [])))"

subsection \<open>find_extremes_in_cluster\<close>

text \<open>
  \<open>sorted\<close> is stable; so is \<open>sort_key\<close>.  The result is (north_point, south_point).
\<close>

definition find_extremes_in_cluster :: "density_map \<Rightarrow> error + (point \<times> point)" where
  "find_extremes_in_cluster density_map =
     (if density_map = [] then Inl ValueError
      else let sorted_by_lat = sort_key (\<lambda>x. snd (fst x)) density_map;
               south_point = fst (hd sorted_by_lat);
               north_point = fst (last sorted_by_lat)
           in Inr (north_point, south_point))"

subsection \<open>calculate_migration_path\<close>

text \<open>
  The band edges \<open>band_min\<close> and \<open>band_max\<close> are exact rationals here.  In
  floating point an edge can fall a rounding error short of a latitude lying exactly on
  it, so an interior waypoint of the script can differ from the one computed below; the
  number of waypoints, the two forced endpoints and the failing branches do not depend
  on the edges.
\<close>

definition waypoint_step ::
  "density_map \<Rightarrow> point \<Rightarrow> rat \<Rightarrow> rat \<Rightarrow> point list \<Rightarrow> nat \<Rightarrow> point list" where
  "waypoint_step density_map south_point lat_south lat_step pth i =
     (let target_lat = lat_south + of_nat i * lat_step;
          band_min = target_lat - lat_step / 2;
          band_max = target_lat + lat_step / 2;
          band_points = filter (\<lambda>(loc, density). band_min \<le> snd loc \<and> snd loc \<le> band_max)
                          density_map
      in if band_points \<noteq> []
         then pth @ [fst (py_max_key_from snd (hd band_points) (tl band_points))]
         else if pth \<noteq> [] then pth @ [(fst (last pth), target_lat)]
         else pth @ [(fst south_point, target_lat)])"

definition band_waypoints :: "density_map \<Rightarrow> point \<Rightarrow> rat \<Rightarrow> rat \<Rightarrow> int \<Rightarrow> point list" where
  "band_waypoints density_map south_point lat_south lat_step num_waypoints =
     foldl (waypoint_step density_map south_point lat_south lat_step) []
       [0 ..< nat num_waypoints]"

text \<open>The two assignments after the loop ("Ensure start and end points").\<close>

definition ensure_endpoints :: "point list \<Rightarrow> point \<Rightarrow> point \<Rightarrow> point list" where
  "ensure_endpoints pth south_point north_point =
     (let pth1 = (if hd pth \<noteq> south_point then pth[0 := south_point] else pth);
          pth2 = (if last pth1 \<noteq> north_point
                  then pth1[length pth1 - 1 := north_point] else pth1)
      in pth2)"

text \<open>
  \<open>lat_range / (num_waypoints - 1)\<close> raises ZeroDivisionError when the divisor is zero;
  \<open>path[0]\<close> raises IndexError when the loop ran zero times.
\<close>

definition calculate_migration_path ::
  "density_map \<Rightarrow> point \<Rightarrow> point \<Rightarrow> int \<Rightarrow> error + point list" where
  "calculate_migration_path density_map north_point south_point num_waypoints =
     (let lat_south = snd south_point;
          lat_north = snd north_point;
          lat_range = lat_north - lat_south
      in if lat_range \<le> 0 then Inr [south_point, north_point]
         else if num_waypoints - 1 = 0 then Inl ZeroDivisionError
         else let lat_step = lat_range / of_int (num_waypoints - 1);
                  pth = band_waypoints density_map south_point lat_south lat_step num_waypoints
              in if pth = [] then Inl IndexError
                 else Inr (ensure_endpoints pth south_point north_point))"

subsection \<open>smooth_path\<close>

fun smooth_loop :: "point list \<Rightarrow> int \<Rightarrow> point list \<Rightarrow> nat list \<Rightarrow> error + point list" where
  "smooth_loop pth half_window smoothed [] = Inr smoothed"
| "smooth_loop pth half_window smoothed (i # rest) =
     (let start = max 0 (int i - half_window);
          end = min (int (length pth)) (int i + half_window + 1);
          window = py_slice pth start end
      in if window = [] then Inl ZeroDivisionError
         else let avg_lon = sum_list (map fst window) / of_nat (length window);
                  avg_lat = sum_list (map snd window) / of_nat (length window)
              in smooth_loop pth half_window (smoothed @ [(avg_lon, avg_lat)]) rest)"

definition smooth_path :: "point list \<Rightarrow> int \<Rightarrow> error + point list" where
  "smooth_path pth window_size =
     (if int (length pth) \<le> window_size then Inr pth
      else let half_window = window_size div 2
           in smooth_loop pth half_window [] [0 ..< length pth])"

subsection \<open>build_migration_json\<close>

text \<open>
  The heatmap is the loaded JSON value.  The result is \<open>Inl e\<close> when an exception
  reaches the invoker, \<open>Inr None\<close> when the function returns without writing the
  output file, and \<open>Inr (Some out)\<close> when it writes \<open>out\<close>.  Progress messages are
  not modelled.
\<close>

fun build_paths :: "density_map list \<Rightarrow> path_record list \<Rightarrow> error + path_record list" where
  "build_paths [] acc = Inr acc"
| "build_paths (cluster # rest) acc =
     (case find_extremes_in_cluster cluster of
        Inl e \<Rightarrow> Inl e
      | Inr (north_point, south_point) \<Rightarrow>
          (case calculate_migration_path cluster north_point south_point 25 of
             Inl e \<Rightarrow> Inl e
           | Inr raw_path \<Rightarrow>
               (case smooth_path raw_path 5 of
                  Inl e \<Rightarrow> Inl e
                | Inr smoothed_path \<Rightarrow>
                    build_paths rest
                      (acc @ [\<lparr>northPoint = [round3 (fst north_point), round3 (snd north_point)],
                               southPoint = [round3 (fst south_point), round3 (snd south_point)],
                               path = map (\<lambda>(lon, lat). [round3 lon, round3 lat])
                                        smoothed_path\<rparr>]))))"

text \<open>\<open>if exclude_regions:\<close> holds for a non-empty list only.\<close>

definition regions_given :: "region list option \<Rightarrow> bool" where
  "regions_given exclude_regions =
     (case exclude_regions of None \<Rightarrow> False | Some [] \<Rightarrow> False | Some (r # rs) \<Rightarrow> True)"

definition build_migration_json ::
  "heatmap \<Rightarrow> string \<Rightarrow> region list option \<Rightarrow> bool \<Rightarrow> rat option \<Rightarrow> bool \<Rightarrow> bool
     \<Rightarrow> error + migration_output option" where
  "build_migration_json hm species_name exclude_regions europe_only americas_south_limit
       americas_only africa_only_south =
     (case aggregate_density_over_time (frames hm) of
        Inl e \<Rightarrow> Inl e
      | Inr density_map \<Rightarrow>
          if density_map = [] then Inr None
          else let filtered = (if regions_given exclude_regions
                               then filter_geographic_regions density_map exclude_regions
                               else density_map);
                   normalized = normalize_densities filtered;
                   clusters = cluster_by_longitude normalized 2 europe_only
                                americas_south_limit americas_only africa_only_south
               in (case build_paths clusters [] of
                     Inl e \<Rightarrow> Inl e
                   | Inr ps \<Rightarrow>
                       Inr (Some \<lparr>speciesName = species_name, color = ''#8b0000'',
                                  paths = ps\<rparr>)))"

subsection \<open>The clusterer's conditions as the specification words them\<close>

text \<open>
  A cell belongs to the western cluster when its longitude is below -20 and, if a
  southern limit is set, its latitude is at least the limit.
\<close>

definition western_cond :: "rat option \<Rightarrow> point \<Rightarrow> bool" where
  "western_cond americas_south_limit p =
     (fst p < - 20 \<and>
      (case americas_south_limit of None \<Rightarrow> True | Some limit \<Rightarrow> limit \<le> snd p))"

text \<open>
  A cell belongs to the eastern cluster when its longitude is at least -20, the run is
  not Americas-only, and it passes the Europe box or, failing that option, the African
  longitude band, when one of them is set.
\<close>

definition eastern_cond :: "bool \<Rightarrow> bool \<Rightarrow> bool \<Rightarrow> point \<Rightarrow> bool" where
  "eastern_cond europe_only americas_only africa_only_south p =
     (- 20 \<le> fst p \<and> \<not> americas_only \<and>
      (if europe_only then - 10 \<le> fst p \<and> fst p \<le> 45 \<and> 35 \<le> snd p \<and> snd p \<le> 72
       else if africa_only_south then - 20 \<le> fst p \<and> fst p \<le> 51
       else True))"

section \<open>Properties\<close>

subsection \<open>Dicts with distinct keys\<close>

lemma update_fresh: "k \<notin> fst ` set al \<Longrightarrow> AList.update k v al = al @ [(k, v)]"
  by (induction al) auto

lemma dict_fold_distinct:
  "distinct (map fst (acc @ items)) \<Longrightarrow>
   foldl (\<lambda>d (k, v). AList.update k v d) acc items = acc @ items"
proof (induction items arbitrary: acc)
  case Nil
  then show ?case by simp
next
  case (Cons kv items)
  obtain k v where kv: "kv = (k, v)" by (cases kv)
  from Cons.prems have fresh: "k \<notin> fst ` set acc"
    by (auto simp: kv)
  from Cons.prems have "distinct (map fst ((acc @ [(k, v)]) @ items))"
    by (simp add: kv)
  from Cons.IH[OF this] show ?case
    by (simp add: kv update_fresh[OF fresh])
qed

lemma dict_of_items_distinct:
  "distinct (map fst items) \<Longrightarrow> dict_of_items items = items"
  using dict_fold_distinct[of "[]" items] by (simp add: dict_of_items_def)

subsection \<open>normalize_densities\<close>

lemma py_max_from_Max: "py_max_from m vs = Max (set (m # vs))"
proof (induction vs arbitrary: m)
  case Nil
  then show ?case by simp
next
  case (Cons v vs)
  have "Max (insert (if m < v then v else m) (set vs)) = Max (insert m (insert v (set vs)))"
    by (cases "set vs = {}") (auto simp: max_def)
  then show ?case by (simp add: Cons.IH)
qed

lemma max_density_Max:
  "dm \<noteq> [] \<Longrightarrow> py_max_from (hd (map snd dm)) (tl (map snd dm)) = Max (snd ` set dm)"
  by (cases dm) (simp_all add: py_max_from_Max)

lemma normalize_densities_map:
  assumes "distinct (map fst dm)" "dm \<noteq> []"
  shows "normalize_densities dm =
           (if Max (snd ` set dm) = 0 then map (\<lambda>(k, v). (k, 0)) dm
            else map (\<lambda>(k, v). (k, v / Max (snd ` set dm))) dm)"
proof -
  have d: "distinct (map fst (map (\<lambda>(k, v). (k, g v)) dm))" for g :: "rat \<Rightarrow> rat"
    using assms(1) by (simp add: comp_def case_prod_unfold)
  show ?thesis
    using assms(2)
    by (simp add: normalize_densities_def max_density_Max Let_def dict_of_items_distinct[OF d])
qed

text \<open>
  C2.  A density map is a dict (distinct keys) whose values are densities, which the data
  model takes to be non-negative.  For every such map, every value of the output of
  \<open>normalize_densities\<close> lies in [0,1]; if moreover some value is non-zero, every
  cell holding the maximum input value maps to exactly 1.  On the empty map the output is
  empty; when the maximum input value is zero every output value is zero; the output has
  the keys of the input, in the same order.  The function has no failing branch.
\<close>

theorem normalize_densities_nonneg_range:
  assumes "distinct (map fst dm)"
  shows "((\<forall>x \<in> set dm. 0 \<le> snd x) \<longrightarrow>
            (\<forall>y \<in> set (normalize_densities dm). 0 \<le> snd y \<and> snd y \<le> 1)) \<and>
         ((\<forall>x \<in> set dm. 0 \<le> snd x) \<and> (\<exists>x \<in> set dm. snd x \<noteq> 0) \<longrightarrow>
            (\<forall>k v. (k, v) \<in> set dm \<and> v = Max (snd ` set dm) \<longrightarrow>
                   (k, 1) \<in> set (normalize_densities dm))) \<and>
         normalize_densities [] = [] \<and>
         (dm \<noteq> [] \<and> Max (snd ` set dm) = 0 \<longrightarrow>
            normalize_densities dm = map (\<lambda>(k, v). (k, 0)) dm) \<and>
         map fst (normalize_densities dm) = map fst dm"
proof (intro conjI)
  let ?M = "Max (snd ` set dm)"
  have Mge: "snd x \<le> ?M" if "x \<in> set dm" for x
    using that by simp
  show "(\<forall>x \<in> set dm. 0 \<le> snd x) \<longrightarrow>
          (\<forall>y \<in> set (normalize_densities dm). 0 \<le> snd y \<and> snd y \<le> 1)"
  proof (intro impI ballI)
    fix y
    assume nonneg: "\<forall>x \<in> set dm. 0 \<le> snd x"
      and y: "y \<in> set (normalize_densities dm)"
    then have ne: "dm \<noteq> []" by (auto simp: normalize_densities_def)
    show "0 \<le> snd y \<and> snd y \<le> 1"
    proof (cases "?M = 0")
      case True
      with y ne assms show ?thesis
        by (auto simp: normalize_densities_map)
    next
      case False
      with y ne assms obtain k v where kv: "(k, v) \<in> set dm" and yv: "y = (k, v / ?M)"
        by (auto simp: normalize_densities_map)
      from kv nonneg have v0: "0 \<le> v" by auto
      from kv Mge have vM: "v \<le> ?M" by fastforce
      with v0 False have Mpos: "0 < ?M" by linarith
      show ?thesis using v0 vM Mpos by (simp add: yv)
    qed
  qed
  show "(\<forall>x \<in> set dm. 0 \<le> snd x) \<and> (\<exists>x \<in> set dm. snd x \<noteq> 0) \<longrightarrow>
          (\<forall>k v. (k, v) \<in> set dm \<and> v = ?M \<longrightarrow> (k, 1) \<in> set (normalize_densities dm))"
  proof (intro impI allI)
    fix k v
    assume h: "(\<forall>x \<in> set dm. 0 \<le> snd x) \<and> (\<exists>x \<in> set dm. snd x \<noteq> 0)"
      and kv: "(k, v) \<in> set dm \<and> v = ?M"
    then have ne: "dm \<noteq> []" by auto
    from h obtain x where x: "x \<in> set dm" "snd x \<noteq> 0" "0 \<le> snd x" by auto
    with Mge[of x] have Mpos: "0 < ?M" by linarith
    have "(k, v / ?M) \<in> set (normalize_densities dm)"
      using kv Mpos ne assms by (force simp: normalize_densities_map)
    then show "(k, 1) \<in> set (normalize_densities dm)"
      using kv Mpos by simp
  qed
  show "normalize_densities [] = []"
    by (simp add: normalize_densities_def)
  show "dm \<noteq> [] \<and> ?M = 0 \<longrightarrow> normalize_densities dm = map (\<lambda>(k, v). (k, 0)) dm"
    using assms by (simp add: normalize_densities_map)
  show "map fst (normalize_densities dm) = map fst dm"
  proof (cases "dm = []")
    case True
    then show ?thesis by (simp add: normalize_densities_def)
  next
    case False
    then show ?thesis
      using assms by (simp add: normalize_densities_map comp_def case_prod_unfold)
  qed
qed

text \<open>
  The theorem at {(0,0): 2, (1,0): 4, (2,0): 0}, whose maximum 4 sits at (1,0), and the
  all-zero map {(0,0): 0, (1,0): 0}.
\<close>

theorem normalize_densities_nonneg_range_witness:
  "distinct (map fst ([((0, 0), 2), ((1, 0), 4), ((2, 0), 0)] :: density_map)) \<and>
   normalize_densities [((0, 0), 2), ((1, 0), 4), ((2, 0), 0)] =
     [((0, 0), 1 / 2), ((1, 0), 1), ((2, 0), 0)] \<and>
   ((1, 0), 1) \<in> set (normalize_densities [((0, 0), 2), ((1, 0), 4), ((2, 0), 0)]) \<and>
   Max (snd ` set ([((0, 0), 2), ((1, 0), 4), ((2, 0), 0)] :: density_map)) = 4 \<and>
   normalize_densities [((0, 0), 0), ((1, 0), 0)] = [((0, 0), 0), ((1, 0), 0)]"
proof -
  have v: "normalize_densities [((0, 0), 2), ((1, 0), 4), ((2, 0), 0)] =
     [((0, 0), 1 / 2), ((1, 0), 1), ((2, 0), 0)]"
    by code_simp
  have z: "normalize_densities [((0, 0), 0), ((1, 0), 0)] = [((0, 0), 0), ((1, 0), 0)]"
    by code_simp
  from normalize_densities_nonneg_range[of "[((0, 0), 2), ((1, 0), 4), ((2, 0), 0)]"] v z
  show ?thesis by simp
qed

text \<open>
  The sign condition of the data model is used: the function divides by the maximum
  whatever the signs are.  Outside the data model, {(0,0): -1, (1,0): 1} is returned
  unchanged, and on {(0,0): -1, (1,0): 0} the cell of the maximum maps to 0.
\<close>

lemma normalize_densities_outside_data_model:
  "normalize_densities [((0, 0), - 1), ((1, 0), 1)] = [((0, 0), - 1), ((1, 0), 1)] \<and>
   \<not> (\<forall>y \<in> set (normalize_densities [((0, 0), - 1), ((1, 0), 1)]). 0 \<le> snd y \<and> snd y \<le> 1) \<and>
   normalize_densities [((0, 0), - 1), ((1, 0), 0)] = [((0, 0), 0), ((1, 0), 0)] \<and>
   ((1, 0), 1) \<notin> set (normalize_densities [((0, 0), - 1), ((1, 0), 0)])"
proof -
  have a: "normalize_densities [((0, 0), - 1), ((1, 0), 1)] = [((0, 0), - 1), ((1, 0), 1)]"
    by code_simp
  have b: "normalize_densities [((0, 0), - 1), ((1, 0), 0)] = [((0, 0), 0), ((1, 0), 0)]"
    by code_simp
  show ?thesis by (simp add: a b)
qed

subsection \<open>cluster_by_longitude\<close>

lemma cluster_step_cases:
  "k \<notin> fst ` set w \<Longrightarrow> k \<notin> fst ` set e \<Longrightarrow>
   cluster_step eu sl am af (w, e) (k, d) =
     (if western_cond sl k then w @ [(k, d)] else w,
      if eastern_cond eu am af k then e @ [(k, d)] else e)"
  by (cases k)
     (auto simp: cluster_step_def western_cond_def eastern_cond_def update_fresh
           split: option.splits)

lemma cluster_fold_filter:
  "distinct (map fst items) \<Longrightarrow>
   fst ` set w \<inter> fst ` set items = {} \<Longrightarrow> fst ` set e \<inter> fst ` set items = {} \<Longrightarrow>
   foldl (cluster_step eu sl am af) (w, e) items =
     (w @ filter (\<lambda>x. western_cond sl (fst x)) items,
      e @ filter (\<lambda>x. eastern_cond eu am af (fst x)) items)"
proof (induction items arbitrary: w e)
  case Nil
  then show ?case by simp
next
  case (Cons kd items)
  obtain k d where kd: "kd = (k, d)" by (cases kd)
  let ?w = "if western_cond sl k then w @ [(k, d)] else w"
  let ?e = "if eastern_cond eu am af k then e @ [(k, d)] else e"
  from Cons.prems have kw: "k \<notin> fst ` set w" and ke: "k \<notin> fst ` set e"
    by (auto simp: kd)
  from Cons.prems have kfresh: "k \<notin> fst ` set items" and dis: "distinct (map fst items)"
    by (auto simp: kd)
  have w': "fst ` set ?w \<inter> fst ` set items = {}"
    using Cons.prems(2) kfresh by (auto simp: kd)
  have e': "fst ` set ?e \<inter> fst ` set items = {}"
    using Cons.prems(3) kfresh by (auto simp: kd)
  have "foldl (cluster_step eu sl am af) (w, e) (kd # items) =
        foldl (cluster_step eu sl am af) (?w, ?e) items"
    by (simp add: kd cluster_step_cases[OF kw ke])
  also have "\<dots> = (?w @ filter (\<lambda>x. western_cond sl (fst x)) items,
                    ?e @ filter (\<lambda>x. eastern_cond eu am af (fst x)) items)"
    by (rule Cons.IH[OF dis w' e'])
  finally show ?case by (simp add: kd)
qed

lemma cluster_loop_filter:
  "distinct (map fst dm) \<Longrightarrow>
   cluster_loop eu sl am af dm =
     (filter (\<lambda>x. western_cond sl (fst x)) dm,
      filter (\<lambda>x. eastern_cond eu am af (fst x)) dm)"
  using cluster_fold_filter[of dm "[]" "[]" eu sl am af] by (simp add: cluster_loop_def)

text \<open>
  C3.  For every density map (a dict: distinct keys) and every option setting, the
  western cluster built by \<open>cluster_by_longitude\<close> holds exactly the cells with
  lon < -20 and (no southern limit, or lat >= the limit), the eastern cluster exactly
  the cells with lon >= -20, americas_only unset, and the Europe box if europe_only,
  else the band -20 <= lon <= 51 if africa_only_south, else nothing more; the cells keep
  their order and values; an empty cluster is omitted, and the western cluster comes
  first.  Clustering {(-30,10): 1, (30,10): 1} with the default options gives
  [{(-30,10): 1}, {(30,10): 1}].
\<close>

theorem cluster_by_longitude_partition:
  assumes "distinct (map fst dm)"
  shows "cluster_by_longitude dm n eu sl am af =
           (let western = filter (\<lambda>x. western_cond sl (fst x)) dm;
                eastern = filter (\<lambda>x. eastern_cond eu am af (fst x)) dm
            in (if western \<noteq> [] then [western] else []) @
               (if eastern \<noteq> [] then [eastern] else [])) \<and>
         cluster_by_longitude [((- 30, 10), 1), ((30, 10), 1)] 2 False None False False =
           [[((- 30, 10), 1)], [((30, 10), 1)]]"
proof (rule conjI)
  show "cluster_by_longitude dm n eu sl am af =
           (let western = filter (\<lambda>x. western_cond sl (fst x)) dm;
                eastern = filter (\<lambda>x. eastern_cond eu am af (fst x)) dm
            in (if western \<noteq> [] then [western] else []) @
               (if eastern \<noteq> [] then [eastern] else []))"
    using assms by (simp add: cluster_by_longitude_def cluster_loop_filter Let_def)
  show "cluster_by_longitude [((- 30, 10), 1), ((30, 10), 1)] 2 False None False False =
           [[((- 30, 10), 1)], [((30, 10), 1)]]"
    by code_simp
qed

text \<open>
  The theorem on four cells with europe_only set and a southern limit of 15: (-30,10) is
  south of the limit and (30,10) is outside the Europe box.
\<close>

theorem cluster_by_longitude_partition_witness:
  "distinct (map fst ([((- 30, 10), 1), ((30, 10), 1), ((- 40, 20), 1 / 2), ((10, 50), 1 / 4)]
       :: density_map)) \<and>
   cluster_by_longitude [((- 30, 10), 1), ((30, 10), 1), ((- 40, 20), 1 / 2), ((10, 50), 1 / 4)]
       2 True (Some 15) False False =
     [[((- 40, 20), 1 / 2)], [((10, 50), 1 / 4)]]"
  using cluster_by_longitude_partition
          [of "[((- 30, 10), 1), ((30, 10), 1), ((- 40, 20), 1 / 2), ((10, 50), 1 / 4)]"
              2 True "Some 15" False False]
  by (simp add: western_cond_def eastern_cond_def)

text \<open>
  C10.  For every density map (a dict: distinct keys) and every option setting: the result
  of \<open>cluster_by_longitude\<close> is the non-empty ones of the two dicts built by the loop,
  western first; every entry of either is an entry of the input, with its value; the
  western one holds only keys with lon < -20 and the eastern one only keys with
  lon >= -20, so they share no key; hence every entry of a returned cluster is an entry
  of the input, and two returned clusters at different positions share no key.
\<close>

theorem cluster_by_longitude_disjoint_restrictions:
  assumes "distinct (map fst dm)"
  shows "(case cluster_loop eu sl am af dm of (western, eastern) \<Rightarrow>
           cluster_by_longitude dm n eu sl am af =
             (if western \<noteq> [] then [western] else []) @
             (if eastern \<noteq> [] then [eastern] else []) \<and>
           set western \<subseteq> set dm \<and> set eastern \<subseteq> set dm \<and>
           (\<forall>x \<in> set western. fst (fst x) < - 20) \<and>
           (\<forall>x \<in> set eastern. - 20 \<le> fst (fst x)) \<and>
           fst ` set western \<inter> fst ` set eastern = {}) \<and>
         (\<forall>c \<in> set (cluster_by_longitude dm n eu sl am af). set c \<subseteq> set dm) \<and>
         (\<forall>i j. i < j \<and> j < length (cluster_by_longitude dm n eu sl am af) \<longrightarrow>
            fst ` set (cluster_by_longitude dm n eu sl am af ! i) \<inter>
            fst ` set (cluster_by_longitude dm n eu sl am af ! j) = {})"
proof (intro conjI)
  let ?w = "filter (\<lambda>x. western_cond sl (fst x)) dm"
  let ?e = "filter (\<lambda>x. eastern_cond eu am af (fst x)) dm"
  have loop: "cluster_loop eu sl am af dm = (?w, ?e)"
    by (rule cluster_loop_filter[OF assms])
  have res: "cluster_by_longitude dm n eu sl am af =
       (if ?w \<noteq> [] then [?w] else []) @ (if ?e \<noteq> [] then [?e] else [])"
    by (simp add: cluster_by_longitude_def loop)
  have west: "\<forall>x \<in> set ?w. fst (fst x) < - 20"
    by (simp add: western_cond_def)
  have east: "\<forall>x \<in> set ?e. - 20 \<le> fst (fst x)"
    by (simp add: eastern_cond_def)
  have disj: "fst ` set ?w \<inter> fst ` set ?e = {}"
    using west east by fastforce
  show "case cluster_loop eu sl am af dm of (western, eastern) \<Rightarrow>
           cluster_by_longitude dm n eu sl am af =
             (if western \<noteq> [] then [western] else []) @
             (if eastern \<noteq> [] then [eastern] else []) \<and>
           set western \<subseteq> set dm \<and> set eastern \<subseteq> set dm \<and>
           (\<forall>x \<in> set western. fst (fst x) < - 20) \<and>
           (\<forall>x \<in> set eastern. - 20 \<le> fst (fst x)) \<and>
           fst ` set western \<inter> fst ` set eastern = {}"
    unfolding loop prod.case using res west east disj by simp
  show "\<forall>c \<in> set (cluster_by_longitude dm n eu sl am af). set c \<subseteq> set dm"
    by (auto simp: res)
  show "\<forall>i j. i < j \<and> j < length (cluster_by_longitude dm n eu sl am af) \<longrightarrow>
         fst ` set (cluster_by_longitude dm n eu sl am af ! i) \<inter>
         fst ` set (cluster_by_longitude dm n eu sl am af ! j) = {}"
  proof (intro allI impI)
    fix i j :: nat
    assume ij: "i < j \<and> j < length (cluster_by_longitude dm n eu sl am af)"
    then have "length (cluster_by_longitude dm n eu sl am af) = 2 \<and> i = 0 \<and> j = 1"
      by (auto simp: res split: if_splits)
    then have "cluster_by_longitude dm n eu sl am af ! i = ?w"
      "cluster_by_longitude dm n eu sl am af ! j = ?e"
      by (auto simp: res split: if_splits)
    then show "fst ` set (cluster_by_longitude dm n eu sl am af ! i) \<inter>
         fst ` set (cluster_by_longitude dm n eu sl am af ! j) = {}"
      using disj by simp
  qed
qed

text \<open>
  The theorem on four cells with africa_only_south set: (60,0) is east of the African
  band and lands in no cluster.
\<close>

theorem cluster_by_longitude_disjoint_restrictions_witness:
  "distinct (map fst ([((- 30, 10), 1 / 2), ((30, 10), 1), ((- 25, - 40), 1 / 4), ((60, 0), 1 / 8)]
       :: density_map)) \<and>
   cluster_loop False None False True
       [((- 30, 10), 1 / 2), ((30, 10), 1), ((- 25, - 40), 1 / 4), ((60, 0), 1 / 8)] =
     ([((- 30, 10), 1 / 2), ((- 25, - 40), 1 / 4)], [((30, 10), 1)]) \<and>
   cluster_by_longitude [((- 30, 10), 1 / 2), ((30, 10), 1), ((- 25, - 40), 1 / 4), ((60, 0), 1 / 8)]
       2 False None False True =
     [[((- 30, 10), 1 / 2), ((- 25, - 40), 1 / 4)], [((30, 10), 1)]]"
proof -
  have l: "cluster_loop False None False True
       [((- 30, 10), 1 / 2), ((30, 10), 1), ((- 25, - 40), 1 / 4), ((60, 0), 1 / 8)] =
     ([((- 30, 10), 1 / 2), ((- 25, - 40), 1 / 4)], [((30, 10), 1)])"
    by code_simp
  from cluster_by_longitude_disjoint_restrictions
         [where dm = "[((- 30, 10), 1 / 2), ((30, 10), 1), ((- 25, - 40), 1 / 4), ((60, 0), 1 / 8)]"
            and n = 2 and eu = False and sl = None and am = False and af = True]
  show ?thesis unfolding l by simp
qed

subsection \<open>find_extremes_in_cluster\<close>

lemma sorted_hd_le: "sorted (map f ys) \<Longrightarrow> y \<in> set ys \<Longrightarrow> f (hd ys) \<le> f y"
  by (cases ys) auto

lemma sorted_le_last: "sorted (map f ys) \<Longrightarrow> y \<in> set ys \<Longrightarrow> f y \<le> f (last ys)"
proof (induction ys)
  case Nil
  then show ?case by simp
next
  case (Cons a ys)
  then show ?case by (cases ys) auto
qed

lemma hd_filter_self: "ys \<noteq> [] \<Longrightarrow> P (hd ys) \<Longrightarrow> hd (filter P ys) = hd ys"
  by (cases ys) auto

lemma last_filter_self: "ys \<noteq> [] \<Longrightarrow> P (last ys) \<Longrightarrow> last (filter P ys) = last ys"
  by (cases ys rule: rev_cases) auto

text \<open>
  The head of a stable sort is the first element of the input with the least key; its
  last element is the last element of the input with the greatest key.
\<close>

lemma hd_sort_key:
  assumes "xs \<noteq> []"
  shows "f (hd (sort_key f xs)) = Min (f ` set xs)"
    and "hd (sort_key f xs) = hd (filter (\<lambda>y. f y = Min (f ` set xs)) xs)"
proof -
  let ?ys = "sort_key f xs"
  have ne: "?ys \<noteq> []" using assms by (metis length_sort length_0_conv)
  have mem: "hd ?ys \<in> set xs" using ne by (metis hd_in_set set_sort)
  have le: "\<And>y. y \<in> set xs \<Longrightarrow> f (hd ?ys) \<le> f y"
    using sorted_hd_le[of f ?ys] by simp
  show m: "f (hd ?ys) = Min (f ` set xs)"
    using mem le by (intro Min_eqI[symmetric]) auto
  have "hd (filter (\<lambda>y. f y = Min (f ` set xs)) ?ys) = hd ?ys"
    using ne m by (intro hd_filter_self) auto
  then show "hd ?ys = hd (filter (\<lambda>y. f y = Min (f ` set xs)) xs)"
    by (simp add: sort_key_stable)
qed

lemma last_sort_key:
  assumes "xs \<noteq> []"
  shows "f (last (sort_key f xs)) = Max (f ` set xs)"
    and "last (sort_key f xs) = last (filter (\<lambda>y. f y = Max (f ` set xs)) xs)"
proof -
  let ?ys = "sort_key f xs"
  have ne: "?ys \<noteq> []" using assms by (metis length_sort length_0_conv)
  have mem: "last ?ys \<in> set xs" using ne by (metis last_in_set set_sort)
  have le: "\<And>y. y \<in> set xs \<Longrightarrow> f y \<le> f (last ?ys)"
    using sorted_le_last[of f ?ys] by simp
  show m: "f (last ?ys) = Max (f ` set xs)"
    using mem le by (intro Max_eqI[symmetric]) auto
  have "last (filter (\<lambda>y. f y = Max (f ` set xs)) ?ys) = last ?ys"
    using ne m by (intro last_filter_self) auto
  then show "last ?ys = last (filter (\<lambda>y. f y = Max (f ` set xs)) xs)"
    by (simp add: sort_key_stable)
qed

lemma extreme_cells_exist:
  fixes f :: "'a \<Rightarrow> rat"
  assumes "xs \<noteq> []"
  shows "filter (\<lambda>y. f y = Max (f ` set xs)) xs \<noteq> []"
    and "filter (\<lambda>y. f y = Min (f ` set xs)) xs \<noteq> []"
proof -
  have "Max (f ` set xs) \<in> f ` set xs" "Min (f ` set xs) \<in> f ` set xs"
    using assms
    by (simp_all only: Max_in Min_in finite_imageI finite_set image_is_empty set_empty
          not_False_eq_True)
  then show "filter (\<lambda>y. f y = Max (f ` set xs)) xs \<noteq> []"
    and "filter (\<lambda>y. f y = Min (f ` set xs)) xs \<noteq> []"
    by (auto simp: filter_empty_conv)
qed

text \<open>
  C4.  On every non-empty cluster \<open>find_extremes_in_cluster\<close> returns a pair
  (north, south) of keys of the cluster, the latitude of north being the maximum latitude
  over the cluster's keys and the latitude of south the minimum; on the empty cluster it
  fails with ValueError.
\<close>

theorem find_extremes_latitudes:
  "(dm \<noteq> [] \<longrightarrow>
      (\<exists>north south. find_extremes_in_cluster dm = Inr (north, south) \<and>
         north \<in> fst ` set dm \<and> south \<in> fst ` set dm \<and>
         snd north = Max ((\<lambda>x. snd (fst x)) ` set dm) \<and>
         snd south = Min ((\<lambda>x. snd (fst x)) ` set dm))) \<and>
   find_extremes_in_cluster [] = Inl ValueError"
proof (rule conjI)
  let ?f = "\<lambda>x::point \<times> rat. snd (fst x)"
  let ?ys = "sort_key ?f dm"
  show "dm \<noteq> [] \<longrightarrow>
      (\<exists>north south. find_extremes_in_cluster dm = Inr (north, south) \<and>
         north \<in> fst ` set dm \<and> south \<in> fst ` set dm \<and>
         snd north = Max (?f ` set dm) \<and> snd south = Min (?f ` set dm))"
  proof (rule impI)
    assume ne: "dm \<noteq> []"
    have ne': "?ys \<noteq> []" using ne by (metis length_sort length_0_conv)
    have "hd ?ys \<in> set dm" "last ?ys \<in> set dm"
      using ne' by (metis hd_in_set set_sort, metis last_in_set set_sort)
    then show "\<exists>north south. find_extremes_in_cluster dm = Inr (north, south) \<and>
         north \<in> fst ` set dm \<and> south \<in> fst ` set dm \<and>
         snd north = Max (?f ` set dm) \<and> snd south = Min (?f ` set dm)"
      using ne hd_sort_key(1)[OF ne, of ?f] last_sort_key(1)[OF ne, of ?f]
      by (simp add: find_extremes_in_cluster_def Let_def)
  qed
  show "find_extremes_in_cluster [] = Inl ValueError"
    by (simp add: find_extremes_in_cluster_def)
qed

text \<open>The theorem on the cluster {(0,5): 1, (0,-5): 1, (0,0): 1}.\<close>

theorem find_extremes_latitudes_witness:
  "([((0, 5), 1), ((0, - 5), 1), ((0, 0), 1)] :: density_map) \<noteq> [] \<and>
   find_extremes_in_cluster [((0, 5), 1), ((0, - 5), 1), ((0, 0), 1)] = Inr ((0, 5), (0, - 5)) \<and>
   Max ((\<lambda>x. snd (fst x)) ` set ([((0, 5), 1), ((0, - 5), 1), ((0, 0), 1)] :: density_map)) = 5 \<and>
   Min ((\<lambda>x. snd (fst x)) ` set ([((0, 5), 1), ((0, - 5), 1), ((0, 0), 1)] :: density_map)) = - 5"
proof -
  have v: "find_extremes_in_cluster [((0, 5), 1), ((0, - 5), 1), ((0, 0), 1)] = Inr ((0, 5), (0, - 5))"
    by code_simp
  from find_extremes_latitudes[of "[((0, 5), 1), ((0, - 5), 1), ((0, 0), 1)]"] v
  show ?thesis by simp
qed

text \<open>
  C7, as amended.  On every non-empty cluster, the south point returned by
  \<open>find_extremes_in_cluster\<close> is, among the cells of minimum latitude, the one
  encountered first in the cluster's iteration order, and the north point is, among the
  cells of maximum latitude, the one encountered last: the function takes the first and
  the last element of a stable sort by latitude.  (Both sets of tied cells are non-empty.)
\<close>

theorem find_extremes_tie_break:
  "dm \<noteq> [] \<Longrightarrow>
   filter (\<lambda>x. snd (fst x) = Max ((\<lambda>x. snd (fst x)) ` set dm)) dm \<noteq> [] \<and>
   filter (\<lambda>x. snd (fst x) = Min ((\<lambda>x. snd (fst x)) ` set dm)) dm \<noteq> [] \<and>
   find_extremes_in_cluster dm =
     Inr (fst (last (filter (\<lambda>x. snd (fst x) = Max ((\<lambda>x. snd (fst x)) ` set dm)) dm)),
          fst (hd (filter (\<lambda>x. snd (fst x) = Min ((\<lambda>x. snd (fst x)) ` set dm)) dm)))"
  using hd_sort_key(2)[of dm "\<lambda>x. snd (fst x)"] last_sort_key(2)[of dm "\<lambda>x. snd (fst x)"]
    extreme_cells_exist[of dm "\<lambda>x. snd (fst x)"]
  by (simp add: find_extremes_in_cluster_def Let_def)

text \<open>
  The theorem on a cluster with two cells at latitude 5 and two at latitude -5: north is
  the second of the former, south the first of the latter.
\<close>

theorem find_extremes_tie_break_witness:
  "([((0, 5), 1), ((1, 5), 1), ((2, - 5), 1), ((3, - 5), 1)] :: density_map) \<noteq> [] \<and>
   find_extremes_in_cluster [((0, 5), 1), ((1, 5), 1), ((2, - 5), 1), ((3, - 5), 1)] =
     Inr ((1, 5), (2, - 5))"
  using find_extremes_tie_break[of "[((0, 5), 1), ((1, 5), 1), ((2, - 5), 1), ((3, - 5), 1)]"]
  by simp

text \<open>
  The claim as stated fails for the north point: in {(0,5): 1, (1,5): 1, (2,5): 1, (3,0): 1}
  three cells tie for the maximum latitude, the first encountered is (0,5), and the
  function returns (2,5).
\<close>

theorem find_extremes_north_tie_counterexample:
  "find_extremes_in_cluster [((0, 5), 1), ((1, 5), 1), ((2, 5), 1), ((3, 0), 1)] =
     Inr ((2, 5), (3, 0)) \<and>
   fst (hd (filter (\<lambda>x. snd (fst x) = 5)
         ([((0, 5), 1), ((1, 5), 1), ((2, 5), 1), ((3, 0), 1)] :: density_map))) = (0, 5) \<and>
   (2, 5) \<noteq> ((0, 5) :: point)"
proof -
  have "find_extremes_in_cluster [((0, 5), 1), ((1, 5), 1), ((2, 5), 1), ((3, 0), 1)] =
     Inr ((2, 5), (3, 0))"
    by code_simp
  then show ?thesis by simp
qed

subsection \<open>calculate_migration_path\<close>

lemma length_waypoint_step:
  "length (waypoint_step dm sp ls st pth i) = Suc (length pth)"
  by (simp add: waypoint_step_def Let_def)

lemma length_waypoint_fold:
  "length (foldl (waypoint_step dm sp ls st) acc is) = length acc + length is"
  by (induction "is" arbitrary: acc) (simp_all add: length_waypoint_step)

lemma length_band_waypoints:
  "length (band_waypoints dm sp ls st n) = nat n"
  by (simp add: band_waypoints_def length_waypoint_fold)

lemma ensure_endpoints_props:
  assumes len: "2 \<le> length pth"
  shows "hd (ensure_endpoints pth s n) = s" "last (ensure_endpoints pth s n) = n"
    "length (ensure_endpoints pth s n) = length pth"
proof -
  define pth1 where "pth1 = (if hd pth \<noteq> s then pth[0 := s] else pth)"
  have e: "ensure_endpoints pth s n =
             (if last pth1 \<noteq> n then pth1[length pth1 - 1 := n] else pth1)"
    by (simp add: ensure_endpoints_def pth1_def Let_def)
  have l1: "length pth1 = length pth" by (simp add: pth1_def)
  have ne: "pth \<noteq> []" "pth1 \<noteq> []" using len l1 by auto
  have h1: "hd pth1 = s"
    using ne by (auto simp: pth1_def hd_conv_nth)
  show "length (ensure_endpoints pth s n) = length pth" by (simp add: e l1)
  show "hd (ensure_endpoints pth s n) = s"
    using h1 len l1 ne by (auto simp: e hd_conv_nth)
  show "last (ensure_endpoints pth s n) = n"
    using ne l1 len by (auto simp: e last_conv_nth)
qed

lemma calculate_migration_path_degenerate:
  "snd north \<le> snd south \<Longrightarrow>
   calculate_migration_path dm north south n = Inr [south, north]"
  by (simp add: calculate_migration_path_def Let_def)

lemma calculate_migration_path_one:
  "snd south < snd north \<Longrightarrow>
   calculate_migration_path dm north south 1 = Inl ZeroDivisionError"
  by (simp add: calculate_migration_path_def Let_def)

lemma calculate_migration_path_empty:
  "snd south < snd north \<Longrightarrow> n \<le> 0 \<Longrightarrow>
   calculate_migration_path dm north south n = Inl IndexError"
  using length_band_waypoints
          [of dm south "snd south" "(snd north - snd south) / of_int (n - 1)" n]
  by (simp add: calculate_migration_path_def Let_def)

text \<open>
  With the north anchor strictly north of the south anchor and at least two waypoints the
  function returns, and the path has one point per waypoint.
\<close>

lemma calculate_migration_path_returns:
  assumes "snd south < snd north" "2 \<le> n"
  shows "\<exists>p. calculate_migration_path dm north south n = Inr p \<and> length p = nat n \<and>
             hd p = south \<and> last p = north"
proof -
  let ?pth = "band_waypoints dm south (snd south) ((snd north - snd south) / of_int (n - 1)) n"
  have len: "2 \<le> length ?pth" using assms(2) by (simp add: length_band_waypoints)
  then have ne: "?pth \<noteq> []" by auto
  have "calculate_migration_path dm north south n = Inr (ensure_endpoints ?pth south north)"
    using assms ne by (simp add: calculate_migration_path_def Let_def)
  then show ?thesis
    using ensure_endpoints_props[OF len, of south north] by (simp add: length_band_waypoints)
qed

text \<open>
  C1.  Whenever \<open>calculate_migration_path\<close> returns a list, for any cluster, anchors
  and waypoint count, the list is not empty, its first element is the south anchor and
  its last element is the north anchor, whatever the search in the bands found; and when
  the two anchors have the same latitude the result is exactly [south, north].
\<close>

theorem calculate_migration_path_endpoints:
  "(calculate_migration_path dm north south n = Inr p \<longrightarrow>
      p \<noteq> [] \<and> hd p = south \<and> last p = north) \<and>
   (snd north = snd south \<longrightarrow> calculate_migration_path dm north south n = Inr [south, north])"
proof (rule conjI; rule impI)
  assume r: "calculate_migration_path dm north south n = Inr p"
  show "p \<noteq> [] \<and> hd p = south \<and> last p = north"
  proof (cases "snd north \<le> snd south")
    case True
    with r show ?thesis by (auto simp: calculate_migration_path_degenerate)
  next
    case False
    then have lt: "snd south < snd north" by simp
    have n2: "2 \<le> n"
    proof (rule ccontr)
      assume "\<not> 2 \<le> n"
      then consider "n = 1" | "n \<le> 0" by linarith
      then show False
        using r lt
        by cases (simp_all add: calculate_migration_path_one calculate_migration_path_empty)
    qed
    from calculate_migration_path_returns[OF lt n2, of dm] r n2 show ?thesis
      by auto
  qed
next
  assume "snd north = snd south"
  then show "calculate_migration_path dm north south n = Inr [south, north]"
    by (simp add: calculate_migration_path_degenerate)
qed

text \<open>
  The theorem on a cluster whose densest cell in the first band is (5,1/4), not the south
  anchor (0,0), and whose densest cell in the last band is (7,39/4), not the north anchor
  (0,10): the loop yields [(5,1/4), (5,5), (7,39/4)] and the function returns
  [(0,0), (5,5), (0,10)].  With both anchors at latitude 5 the result is the two anchors.
\<close>

theorem calculate_migration_path_endpoints_witness:
  "calculate_migration_path [((0, 0), 1 / 2), ((5, 1 / 4), 1), ((0, 10), 1 / 2), ((7, 39 / 4), 1)]
       (0, 10) (0, 0) 3 = Inr [(0, 0), (5, 5), (0, 10)] \<and>
   band_waypoints [((0, 0), 1 / 2), ((5, 1 / 4), 1), ((0, 10), 1 / 2), ((7, 39 / 4), 1)]
       (0, 0) 0 5 3 = [(5, 1 / 4), (5, 5), (7, 39 / 4)] \<and>
   hd [(0, 0), (5, 5), (0, 10)] = ((0, 0) :: point) \<and>
   last [(0, 0), (5, 5), (0, 10)] = ((0, 10) :: point) \<and>
   calculate_migration_path [((2, 5), 1), ((3, 5), 1)] (3, 5) (2, 5) 25 = Inr [(2, 5), (3, 5)]"
proof -
  have v: "calculate_migration_path
       [((0, 0), 1 / 2), ((5, 1 / 4), 1), ((0, 10), 1 / 2), ((7, 39 / 4), 1)]
       (0, 10) (0, 0) 3 = Inr [(0, 0), (5, 5), (0, 10)]"
    by code_simp
  have b: "band_waypoints [((0, 0), 1 / 2), ((5, 1 / 4), 1), ((0, 10), 1 / 2), ((7, 39 / 4), 1)]
       (0, 0) 0 5 3 = [(5, 1 / 4), (5, 5), (7, 39 / 4)]"
    by code_simp
  from calculate_migration_path_endpoints
         [of "[((0, 0), 1 / 2), ((5, 1 / 4), 1), ((0, 10), 1 / 2), ((7, 39 / 4), 1)]"
             "(0, 10)" "(0, 0)" 3 "[(0, 0), (5, 5), (0, 10)]"]
    calculate_migration_path_endpoints[of "[((2, 5), 1), ((3, 5), 1)]" "(3, 5)" "(2, 5)" 25]
    v b
  show ?thesis by simp
qed

text \<open>
  C5.  What the function does with num_waypoints = 1: when the north anchor is not
  strictly north of the south anchor it returns [south, north]; otherwise the step
  \<open>lat_range / (num_waypoints - 1)\<close> divides by zero and the call raises
  ZeroDivisionError before any waypoint is built, so no 1-element list is returned.
\<close>

theorem single_waypoint_division_by_zero:
  "(snd north \<le> snd south \<longrightarrow>
      calculate_migration_path dm north south 1 = Inr [south, north]) \<and>
   (snd south < snd north \<longrightarrow>
      calculate_migration_path dm north south 1 = Inl ZeroDivisionError)"
  by (simp add: calculate_migration_path_degenerate calculate_migration_path_one)

text \<open>
  The theorem on the cluster {(0,0): 1, (0,10): 1} with its anchors (0,10) and (0,0), and
  on a cluster whose anchors share latitude 5.
\<close>

theorem single_waypoint_division_by_zero_witness:
  "snd ((0, 0) :: point) < snd ((0, 10) :: point) \<and>
   calculate_migration_path [((0, 0), 1), ((0, 10), 1)] (0, 10) (0, 0) 1 = Inl ZeroDivisionError \<and>
   calculate_migration_path [((0, 5), 1), ((1, 5), 1)] (1, 5) (0, 5) 1 = Inr [(0, 5), (1, 5)]"
  using single_waypoint_division_by_zero[of "(0, 10)" "(0, 0)" "[((0, 0), 1), ((0, 10), 1)]"]
    single_waypoint_division_by_zero[of "(1, 5)" "(0, 5)" "[((0, 5), 1), ((1, 5), 1)]"]
  by simp

subsection \<open>smooth_path\<close>

text \<open>
  C8.  On every waypoint sequence whose length is at most the window size,
  \<open>smooth_path\<close> returns the sequence itself.
\<close>

theorem smooth_path_short_identity: "int (length p) \<le> w \<Longrightarrow> smooth_path p w = Inr p"
  by (simp add: smooth_path_def)

text \<open>The theorem on a three-point path with window 3.\<close>

theorem smooth_path_short_identity_witness:
  "int (length [(0, 0), (3, 1), (0, 2) :: point]) \<le> 3 \<and>
   smooth_path [(0, 0), (3, 1), (0, 2)] 3 = Inr [(0, 0), (3, 1), (0, 2)]"
  using smooth_path_short_identity[of "[(0, 0), (3, 1), (0, 2)]" 3] by simp

lemma smooth_path_example:
  "smooth_path [(0, 0), (3, 1), (0, 2), (0, 3), (0, 4), (0, 5)] 3 =
     Inr [(3 / 2, 1 / 2), (1, 1), (1, 2), (0, 3), (0, 4), (0, 9 / 2)]"
  by code_simp

subsection \<open>build_migration_json\<close>

text \<open>
  A run on one frame with the cells (0,0) and (0,24): the raw path is the 25 points
  (0,0), (0,1), ..., (0,24), and the window of 5 averages the first three and the last
  three of them.
\<close>

lemma build_migration_json_example:
  "build_migration_json
     \<lparr>frames = [\<lparr>week = ''2024-01-01'', cells = [[0, 0, 1], [0, 24, 1]]\<rparr>]\<rparr>
     ''x'' None False None False False =
   Inr (Some \<lparr>speciesName = ''x'', color = ''#8b0000'',
     paths = [\<lparr>northPoint = [0, 24], southPoint = [0, 0],
       path = [[0, 1], [0, 3 / 2], [0, 2], [0, 3], [0, 4], [0, 5],
               [0, 6], [0, 7], [0, 8], [0, 9], [0, 10], [0, 11],
               [0, 12], [0, 13], [0, 14], [0, 15], [0, 16], [0, 17],
               [0, 18], [0, 19], [0, 20], [0, 21], [0, 22], [0, 45 / 2],
               [0, 23]]\<rparr>]\<rparr>)"
  by code_simp

text \<open>
  C9.  Smoothing does not keep the forced endpoints: there is a non-empty path longer
  than the window whose smoothed path is non-empty, of the same length, and has a first
  point different from the first point of the input; and there is a run of
  \<open>build_migration_json\<close> that writes a record with a non-empty path whose first
  entry differs from its southPoint and whose last entry differs from its northPoint
  (both of them [lon, lat] pairs).
\<close>

theorem smoothing_moves_endpoints:
  "(\<exists>p w sm. w < int (length p) \<and> smooth_path p w = Inr sm \<and>
      p \<noteq> [] \<and> sm \<noteq> [] \<and> length sm = length p \<and> hd sm \<noteq> hd p) \<and>
   (\<exists>hm name ex eu sl am af out r.
      build_migration_json hm name ex eu sl am af = Inr (Some out) \<and> r \<in> set (paths out) \<and>
      path r \<noteq> [] \<and> length (southPoint r) = 2 \<and> length (northPoint r) = 2 \<and>
      hd (path r) \<noteq> southPoint r \<and> last (path r) \<noteq> northPoint r)"
proof (rule conjI)
  show "\<exists>p w sm. w < int (length p) \<and> smooth_path p w = Inr sm \<and>
      p \<noteq> [] \<and> sm \<noteq> [] \<and> length sm = length p \<and> hd sm \<noteq> hd p"
    using smooth_path_example
    by (intro exI[of _ "[(0, 0), (3, 1), (0, 2), (0, 3), (0, 4), (0, 5)]"] exI[of _ 3]
          exI[of _ "[(3 / 2, 1 / 2), (1, 1), (1, 2), (0, 3), (0, 4), (0, 9 / 2)]"]) simp
  show "\<exists>hm name ex eu sl am af out r.
      build_migration_json hm name ex eu sl am af = Inr (Some out) \<and> r \<in> set (paths out) \<and>
      path r \<noteq> [] \<and> length (southPoint r) = 2 \<and> length (northPoint r) = 2 \<and>
      hd (path r) \<noteq> southPoint r \<and> last (path r) \<noteq> northPoint r"
    using build_migration_json_example by fastforce
qed

text \<open>
  C6, as amended.  For every heatmap whose aggregated density map has zero cells, and
  every option setting, \<open>build_migration_json\<close> writes no output file and returns
  normally: no error reaches the invoker.
\<close>

theorem empty_aggregate_returns_without_output:
  "aggregate_density_over_time (frames hm) = Inr [] \<Longrightarrow>
   build_migration_json hm species_name exclude_regions eu sl am af = Inr None"
  by (simp add: build_migration_json_def)

text \<open>The theorem on a heatmap of two frames without cells.\<close>

theorem empty_aggregate_returns_without_output_witness:
  "aggregate_density_over_time
     (frames \<lparr>frames = [\<lparr>week = ''2024-01-01'', cells = []\<rparr>,
                        \<lparr>week = ''2024-01-08'', cells = []\<rparr>]\<rparr>) = Inr [] \<and>
   build_migration_json
     \<lparr>frames = [\<lparr>week = ''2024-01-01'', cells = []\<rparr>, \<lparr>week = ''2024-01-08'', cells = []\<rparr>]\<rparr>
     ''Barn Swallow'' None False None False False = Inr None"
proof -
  have a: "aggregate_density_over_time
     (frames \<lparr>frames = [\<lparr>week = ''2024-01-01'', cells = []\<rparr>,
                        \<lparr>week = ''2024-01-08'', cells = []\<rparr>]\<rparr>) = Inr []"
    by (simp add: aggregate_density_over_time_def)
  from empty_aggregate_returns_without_output
         [OF a, of "''Barn Swallow''" None False None False False] a
  show ?thesis by simp
qed

text \<open>
  The claim as stated fails on the heatmap without frames: the aggregated map is empty,
  and the run ends normally, with no error.
\<close>

theorem empty_heatmap_not_fatal_counterexample:
  "aggregate_density_over_time (frames \<lparr>frames = []\<rparr>) = Inr [] \<and>
   build_migration_json \<lparr>frames = []\<rparr> ''Unknown Species'' (Some []) False None False False =
     Inr None \<and>
   (\<forall>e. build_migration_json \<lparr>frames = []\<rparr> ''Unknown Species'' (Some []) False None False False
          \<noteq> Inl e)"
  by (simp add: aggregate_density_over_time_def build_migration_json_def)

end
